theory Spec2Isabelle
  imports Main "HOL-Library.Char_ord" "HOL-Library.List_Lexorder" "HOL-Library.AList" "HOL-Library.Word"
begin

section \<open>Go values used by the file-based cluster repository\<close>

text \<open>
  A Go \<^verbatim>\<open>string\<close> is a sequence of bytes: \<^typ>\<open>string\<close>, a list of 8-bit characters.
  A Go \<^verbatim>\<open>map[string]string\<close> is \<^verbatim>\<open>nil\<close> (\<open>None\<close>) or a table of entries with pairwise
  distinct keys, kept as an association list (\<open>Some kvs\<close>); its order carries no meaning and
  two tables are the same mapping when \<open>map_of\<close> agrees on them.
\<close>

type_synonym gomap = "(string \<times> string) list option"

definition entries :: "gomap \<Rightarrow> string \<rightharpoonup> string" where
  "entries m = (case m of None \<Rightarrow> Map.empty | Some kvs \<Rightarrow> map_of kvs)"

text \<open>
  A Go \<^verbatim>\<open>error\<close>: \<open>New msg\<close> is \<^verbatim>\<open>errors.New(msg)\<close>, \<open>EngineError msg\<close> is an error reported by
  the storage engine (gorm's \<^verbatim>\<open>result.Error\<close>), \<open>JsonError\<close> is an error of encoding/json
  (a SyntaxError or an UnmarshalTypeError).
\<close>

datatype error = New string | EngineError string | JsonError

abbreviation byte :: "char \<Rightarrow> nat" where
  "byte c \<equiv> of_char c"

section \<open>unicode/utf8 and unicode/utf16\<close>

text \<open>
  Runes are natural numbers. The masks and shifts of the library are written as
  \<open>mod\<close>, \<open>div\<close> and multiplication by powers of two (the bit fields are disjoint,
  so \<^verbatim>\<open>|\<close> is addition).
\<close>

definition RuneError :: nat where
  "RuneError = 0xFFFD"

text \<open>The table \<^verbatim>\<open>first\<close> of unicode/utf8: 0xF0 is ASCII, 0xF1 is invalid, otherwise the
  low three bits give the size and the high four bits index \<^verbatim>\<open>acceptRanges\<close>.\<close>

definition first :: "nat \<Rightarrow> nat" where
  "first b =
     (if b < 0x80 then 0xF0
      else if b < 0xC2 then 0xF1
      else if b < 0xE0 then 0x02
      else if b = 0xE0 then 0x13
      else if b < 0xED then 0x03
      else if b = 0xED then 0x23
      else if b < 0xF0 then 0x03
      else if b = 0xF0 then 0x34
      else if b < 0xF4 then 0x04
      else if b = 0xF4 then 0x44
      else 0xF1)"

definition acceptRanges :: "nat \<Rightarrow> nat \<times> nat" where
  "acceptRanges i =
     (if i = 0 then (0x80, 0xBF)
      else if i = 1 then (0xA0, 0xBF)
      else if i = 2 then (0x80, 0x9F)
      else if i = 3 then (0x90, 0xBF)
      else if i = 4 then (0x80, 0x8F)
      else (0, 0))"

text \<open>\<^verbatim>\<open>utf8.DecodeRune\<close> / \<^verbatim>\<open>utf8.DecodeRuneInString\<close>: the rune at the head of \<open>s\<close> and its
  width; \<open>(RuneError, 1)\<close> for a byte that starts no valid encoding.\<close>

definition DecodeRune :: "string \<Rightarrow> nat \<times> nat" where
  "DecodeRune s =
     (if length s < 1 then (RuneError, 0)
      else
        let s0 = byte (s ! 0); x = first s0 in
        if 0xF0 \<le> x then (if x = 0xF0 then s0 else RuneError, 1)
        else
          let sz = x mod 8; lo = fst (acceptRanges (x div 16)); hi = snd (acceptRanges (x div 16)) in
          if length s < sz then (RuneError, 1)
          else
            let s1 = byte (s ! 1) in
            if s1 < lo \<or> hi < s1 then (RuneError, 1)
            else if sz \<le> 2 then ((s0 mod 32) * 64 + s1 mod 64, 2)
            else
              let s2 = byte (s ! 2) in
              if s2 < 0x80 \<or> 0xBF < s2 then (RuneError, 1)
              else if sz \<le> 3 then ((s0 mod 16) * 4096 + (s1 mod 64) * 64 + s2 mod 64, 3)
              else
                let s3 = byte (s ! 3) in
                if s3 < 0x80 \<or> 0xBF < s3 then (RuneError, 1)
                else ((s0 mod 8) * 262144 + (s1 mod 64) * 4096 + (s2 mod 64) * 64 + s3 mod 64, 4))"

text \<open>\<^verbatim>\<open>utf8.EncodeRune\<close>: the bytes written for a rune; a surrogate or a rune beyond
  U+10FFFF is written as U+FFFD.\<close>

definition EncodeRune :: "nat \<Rightarrow> string" where
  "EncodeRune r =
     (if r \<le> 0x7F then [char_of r]
      else if r \<le> 0x7FF then [char_of (0xC0 + r div 64), char_of (0x80 + r mod 64)]
      else if 0x10FFFF < r \<or> (0xD800 \<le> r \<and> r \<le> 0xDFFF) then [CHR 0xEF, CHR 0xBF, CHR 0xBD]
      else if r \<le> 0xFFFF then
        [char_of (0xE0 + r div 4096), char_of (0x80 + (r div 64) mod 64), char_of (0x80 + r mod 64)]
      else
        [char_of (0xF0 + r div 262144), char_of (0x80 + (r div 4096) mod 64),
         char_of (0x80 + (r div 64) mod 64), char_of (0x80 + r mod 64)])"

text \<open>\<^verbatim>\<open>utf8.ValidString\<close>: every byte of \<open>s\<close> belongs to a valid encoding.\<close>

fun ValidString :: "string \<Rightarrow> bool" where
  "ValidString [] = True"
| "ValidString (c # s) =
     (if byte c < 0x80 then ValidString s
      else if fst (DecodeRune (c # s)) = RuneError \<and> snd (DecodeRune (c # s)) = 1 then False
      else ValidString (drop (snd (DecodeRune (c # s)) - 1) s))"

definition IsSurrogate :: "nat \<Rightarrow> bool" where
  "IsSurrogate r \<longleftrightarrow> 0xD800 \<le> r \<and> r < 0xE000"

text \<open>\<^verbatim>\<open>utf16.DecodeRune\<close>; the second argument is \<open>None\<close> where the caller passes \<open>-1\<close>.\<close>

definition utf16_DecodeRune :: "nat \<Rightarrow> nat option \<Rightarrow> nat" where
  "utf16_DecodeRune r1 r2 =
     (case r2 of
        None \<Rightarrow> RuneError
      | Some r2' \<Rightarrow>
          if 0xD800 \<le> r1 \<and> r1 < 0xDC00 \<and> 0xDC00 \<le> r2' \<and> r2' < 0xE000
          then (r1 - 0xD800) * 1024 + (r2' - 0xDC00) + 0x10000
          else RuneError)"

section \<open>encoding/json on a map of strings\<close>

subsection \<open>Encoding\<close>

definition hex :: string where
  "hex = ''0123456789abcdef''"

text \<open>\<^verbatim>\<open>htmlSafeSet\<close>: the ASCII bytes written as they are (\<^verbatim>\<open>json.Marshal\<close> escapes HTML).\<close>

definition htmlSafeSet :: "char \<Rightarrow> bool" where
  "htmlSafeSet c \<longleftrightarrow>
     0x20 \<le> byte c \<and> byte c < 0x80 \<and> c \<noteq> CHR 0x22 \<and> c \<noteq> CHR ''&''
     \<and> c \<noteq> CHR ''<'' \<and> c \<noteq> CHR ''>'' \<and> c \<noteq> CHR 0x5C"

text \<open>The escape written for an ASCII byte outside \<^verbatim>\<open>htmlSafeSet\<close>.\<close>

definition escape :: "char \<Rightarrow> string" where
  "escape c =
     (if c = CHR 0x5C \<or> c = CHR 0x22 then [CHR 0x5C, c]
      else if c = CHR 0x0A then [CHR 0x5C, CHR ''n'']
      else if c = CHR 0x0D then [CHR 0x5C, CHR ''r'']
      else if c = CHR 0x09 then [CHR 0x5C, CHR ''t'']
      else [CHR 0x5C, CHR ''u'', CHR ''0'', CHR ''0'', hex ! (byte c div 16), hex ! (byte c mod 16)])"

text \<open>The loop of the string encoder (\<^verbatim>\<open>encodeState.string\<close>), without the enclosing
  quotes: an invalid byte becomes the escape of U+FFFD, U+2028 and U+2029 are escaped,
  every other encoded rune is copied.\<close>

fun string_body :: "string \<Rightarrow> string" where
  "string_body [] = []"
| "string_body (c # s) =
     (if byte c < 0x80 then
        (if htmlSafeSet c then c # string_body s else escape c @ string_body s)
      else if fst (DecodeRune (c # s)) = RuneError \<and> snd (DecodeRune (c # s)) = 1 then
        CHR 0x5C # ''ufffd'' @ string_body s
      else if fst (DecodeRune (c # s)) = 0x2028 \<or> fst (DecodeRune (c # s)) = 0x2029 then
        CHR 0x5C # ''u202'' @ [hex ! (fst (DecodeRune (c # s)) mod 16)]
          @ string_body (drop (snd (DecodeRune (c # s)) - 1) s)
      else
        take (snd (DecodeRune (c # s))) (c # s)
          @ string_body (drop (snd (DecodeRune (c # s)) - 1) s))"

definition encode_string :: "string \<Rightarrow> string" where
  "encode_string s = CHR 0x22 # string_body s @ [CHR 0x22]"

text \<open>The members of an object, in the order given, separated by commas.\<close>

fun object_body :: "(string \<times> string) list \<Rightarrow> string" where
  "object_body [] = []"
| "object_body [kv] = encode_string (fst kv) @ CHR '':'' # encode_string (snd kv)"
| "object_body (kv # kvs) =
     encode_string (fst kv) @ CHR '':'' # encode_string (snd kv) @ CHR '','' # object_body kvs"

text \<open>\<^verbatim>\<open>json.Marshal\<close> of a \<^verbatim>\<open>map[string]string\<close>: \<^verbatim>\<open>null\<close> for the nil map, otherwise the object
  of its entries sorted by key (bytewise). It has no failing case for this type.\<close>

definition json_Marshal :: "gomap \<Rightarrow> error + string" where
  "json_Marshal m =
     (case m of
        None \<Rightarrow> Inr ''null''
      | Some kvs \<Rightarrow> Inr (CHR ''{'' # object_body (sort_key fst kvs) @ ''}''))"

subsection \<open>Decoding\<close>

text \<open>The value of a hexadecimal digit, as \<^verbatim>\<open>getu4\<close> reads it.\<close>

definition hexval :: "char \<Rightarrow> nat option" where
  "hexval c =
     (if byte (CHR ''0'') \<le> byte c \<and> byte c \<le> byte (CHR ''9'') then Some (byte c - byte (CHR ''0''))
      else if byte (CHR ''a'') \<le> byte c \<and> byte c \<le> byte (CHR ''f'') then Some (byte c - byte (CHR ''a'') + 10)
      else if byte (CHR ''A'') \<le> byte c \<and> byte c \<le> byte (CHR ''F'') then Some (byte c - byte (CHR ''A'') + 10)
      else None)"

text \<open>\<^verbatim>\<open>getu4\<close>: the rune of a \<^verbatim>\<open>\uXXXX\<close> escape at the head of \<open>s\<close>; \<open>None\<close> is the
  library's \<open>-1\<close>.\<close>

definition getu4 :: "string \<Rightarrow> nat option" where
  "getu4 s =
     (if length s < 6 \<or> s ! 0 \<noteq> CHR 0x5C \<or> s ! 1 \<noteq> CHR ''u'' then None
      else
        case (hexval (s ! 2), hexval (s ! 3), hexval (s ! 4), hexval (s ! 5)) of
          (Some a, Some b, Some c, Some d) \<Rightarrow> Some (((a * 16 + b) * 16 + c) * 16 + d)
        | _ \<Rightarrow> None)"

text \<open>
  A string literal is read from just after its opening quote, one step at a time. A step
  meets the closing quote, or a syntax error of the scanner (an unescaped control
  character, an unknown escape, a \<^verbatim>\<open>\u\<close> without four hexadecimal digits, the end of the
  input), or it decodes some bytes as \<^verbatim>\<open>unquote\<close> does and consumes \<open>n\<close> bytes of input.
\<close>

datatype quoted = Closing | Invalid | Decoded string nat

text \<open>A \<^verbatim>\<open>\u\<close> escape: a surrogate followed by a second escape that completes the pair
  is decoded with it; a surrogate alone becomes U+FFFD.\<close>

definition escape_u :: "string \<Rightarrow> quoted" where
  "escape_u s =
     (case getu4 s of
        None \<Rightarrow> Invalid
      | Some rr \<Rightarrow>
          if IsSurrogate rr then
            (if utf16_DecodeRune rr (getu4 (drop 6 s)) \<noteq> RuneError
             then Decoded (EncodeRune (utf16_DecodeRune rr (getu4 (drop 6 s)))) 12
             else Decoded (EncodeRune RuneError) 6)
          else Decoded (EncodeRune rr) 6)"

definition escaped :: "string \<Rightarrow> quoted" where
  "escaped s =
     (if length s < 2 then Invalid
      else if s ! 1 = CHR 0x22 \<or> s ! 1 = CHR 0x5C \<or> s ! 1 = CHR ''/'' then Decoded [s ! 1] 2
      else if s ! 1 = CHR ''b'' then Decoded [CHR 0x08] 2
      else if s ! 1 = CHR ''f'' then Decoded [CHR 0x0C] 2
      else if s ! 1 = CHR ''n'' then Decoded [CHR 0x0A] 2
      else if s ! 1 = CHR ''r'' then Decoded [CHR 0x0D] 2
      else if s ! 1 = CHR ''t'' then Decoded [CHR 0x09] 2
      else if s ! 1 = CHR ''u'' then escape_u s
      else Invalid)"

text \<open>One step: ASCII is copied; other bytes are coerced to well-formed UTF-8
  (an invalid byte becomes U+FFFD).\<close>

definition quoted_step :: "string \<Rightarrow> quoted" where
  "quoted_step s =
     (if length s < 1 then Invalid
      else if s ! 0 = CHR 0x22 then Closing
      else if s ! 0 = CHR 0x5C then escaped s
      else if byte (s ! 0) < 0x20 then Invalid
      else if byte (s ! 0) < 0x80 then Decoded [s ! 0] 1
      else Decoded (EncodeRune (fst (DecodeRune s))) (snd (DecodeRune s)))"

definition emit :: "string \<Rightarrow> (string \<times> string) option \<Rightarrow> (string \<times> string) option" where
  "emit bs r = (case r of None \<Rightarrow> None | Some (t, rest) \<Rightarrow> Some (bs @ t, rest))"

text \<open>The decoded literal and the input after its closing quote.\<close>

fun unquote :: "string \<Rightarrow> (string \<times> string) option" where
  "unquote [] = None"
| "unquote (c # s) =
     (case quoted_step (c # s) of
        Closing \<Rightarrow> Some ([], s)
      | Invalid \<Rightarrow> None
      | Decoded bs n \<Rightarrow> emit bs (unquote (drop (n - 1) s)))"

lemma unquote_shorter: "unquote s = Some (t, r) \<Longrightarrow> length r < length s"
proof (induction s arbitrary: t r rule: unquote.induct)
  case 1
  then show ?case by simp
next
  case (2 c s)
  show ?case
  proof (cases "quoted_step (c # s)")
    case Closing
    with 2 show ?thesis by simp
  next
    case Invalid
    with 2 show ?thesis by simp
  next
    case (Decoded bs n)
    with "2.prems" obtain t' where "unquote (drop (n - 1) s) = Some (t', r)"
      by (auto simp: emit_def split: option.splits)
    with "2.IH" [OF Decoded] have "length r < length (drop (n - 1) s)" by blast
    then show ?thesis by simp
  qed
qed


definition isSpace :: "char \<Rightarrow> bool" where
  "isSpace c \<longleftrightarrow> c = CHR '' '' \<or> c = CHR 0x09 \<or> c = CHR 0x0D \<or> c = CHR 0x0A"

fun skip_ws :: "string \<Rightarrow> string" where
  "skip_ws [] = []"
| "skip_ws (c # s) = (if isSpace c then skip_ws s else c # s)"

lemma skip_ws_length: "length (skip_ws s) \<le> length s"
  by (induction s) auto

text \<open>The value of a member of a map of strings: a string literal, or \<^verbatim>\<open>null\<close>, which leaves
  the element at its zero value. Any other value is an error (a syntax error, or an
  UnmarshalTypeError for a number, a boolean, an array or an object).\<close>

definition member_value :: "string \<Rightarrow> (string \<times> string) option" where
  "member_value s =
     (if length s < 1 then None
      else if s ! 0 = CHR 0x22 then unquote (drop 1 s)
      else if take 4 s = ''null'' then Some ([], drop 4 s)
      else None)"

lemma member_value_shorter: "member_value s = Some (t, r) \<Longrightarrow> length r < length s"
  by (cases s) (auto simp: member_value_def split: if_splits dest: unquote_shorter)

text \<open>One member, read from the quote that opens its key: the pair and the input from
  the delimiter that follows the value.\<close>

definition member :: "string \<Rightarrow> ((string \<times> string) \<times> string) option" where
  "member s =
     (if length s < 1 \<or> s ! 0 \<noteq> CHR 0x22 then None
      else
        case unquote (drop 1 s) of
          None \<Rightarrow> None
        | Some (k, s2) \<Rightarrow>
            if length (skip_ws s2) < 1 \<or> skip_ws s2 ! 0 \<noteq> CHR '':'' then None
            else
              (case member_value (skip_ws (drop 1 (skip_ws s2))) of
                 None \<Rightarrow> None
               | Some (v, s4) \<Rightarrow> Some ((k, v), skip_ws s4)))"

lemma member_shorter:
  assumes "member s = Some (kv, r)"
  shows "length r < length s"
proof -
  from assms obtain k s2 v s4 where
    s: "s \<noteq> []" and u: "unquote (drop 1 s) = Some (k, s2)"
    and c: "skip_ws s2 \<noteq> []"
    and v: "member_value (skip_ws (drop 1 (skip_ws s2))) = Some (v, s4)"
    and r: "r = skip_ws s4"
    by (auto simp: member_def split: if_splits option.splits)
  have "length r \<le> length s4" using r skip_ws_length by simp
  also have "\<dots> < length (skip_ws (drop 1 (skip_ws s2)))" using v by (rule member_value_shorter)
  also have "\<dots> \<le> length (drop 1 (skip_ws s2))" by (rule skip_ws_length)
  also have "\<dots> \<le> length s2" using skip_ws_length [of s2] by simp
  also have "\<dots> < length (drop 1 s)" using u by (rule unquote_shorter)
  also have "\<dots> \<le> length s" by simp
  finally show ?thesis .
qed

text \<open>The members of an object up to and including the closing brace; each member is
  stored in the map as it is read, so a repeated key keeps its last value.\<close>

function members :: "(string \<times> string) list \<Rightarrow> string \<Rightarrow> ((string \<times> string) list \<times> string) option" where
  "members m s =
     (case member s of
        None \<Rightarrow> None
      | Some (kv, r) \<Rightarrow>
          if length r < 1 then None
          else if r ! 0 = CHR '','' then members (AList.update (fst kv) (snd kv) m) (skip_ws (drop 1 r))
          else if r ! 0 = CHR ''}'' then Some (AList.update (fst kv) (snd kv) m, drop 1 r)
          else None)"
  by pat_completeness auto
termination
proof (relation "measure (\<lambda>(m, s). length s)", goal_cases)
  case 1
  then show ?case by simp
next
  case (2 m s x2 kv r)
  then have "length r < length s" by (auto dest: member_shorter)
  moreover have "length (skip_ws (drop 1 r)) \<le> length r"
    using skip_ws_length [of "drop 1 r"] by simp
  ultimately show ?case by simp
qed

text \<open>An object, read from just after its opening brace, stored into \<open>v\<close> (a nil map is
  made first).\<close>

definition object :: "gomap \<Rightarrow> string \<Rightarrow> ((string \<times> string) list \<times> string) option" where
  "object v s =
     (if length (skip_ws s) < 1 then None
      else if skip_ws s ! 0 = CHR ''}'' then Some (case v of None \<Rightarrow> [] | Some m \<Rightarrow> m, drop 1 (skip_ws s))
      else members (case v of None \<Rightarrow> [] | Some m \<Rightarrow> m) (skip_ws s))"

text \<open>
  \<^verbatim>\<open>json.Unmarshal(data, &v)\<close> for \<open>v\<close> a \<^verbatim>\<open>map[string]string\<close>: \<^verbatim>\<open>null\<close> sets the map to nil;
  an object is stored into the map; anything else, and anything but white space after
  the value, is an error.
\<close>

definition json_Unmarshal :: "string \<Rightarrow> gomap \<Rightarrow> error + gomap" where
  "json_Unmarshal data v =
     (if length (skip_ws data) < 1 then Inl JsonError
      else if skip_ws data ! 0 = CHR ''{'' then
        (case object v (drop 1 (skip_ws data)) of
           None \<Rightarrow> Inl JsonError
         | Some (m, r) \<Rightarrow> if skip_ws r = [] then Inr (Some m) else Inl JsonError)
      else if take 4 (skip_ws data) = ''null'' then
        (if skip_ws (drop 4 (skip_ws data)) = [] then Inr None else Inl JsonError)
      else Inl JsonError)"


declare members.simps [simp del]

section \<open>The model and the entity\<close>

text \<open>
  Modelled from the spec: the structs \<^verbatim>\<open>sql.AuditLog\<close> and \<^verbatim>\<open>Cluster\<close> are declared in other
  packages of the repository; these are the fields the file-based repository reads and
  writes (spec, section 3). A \<^verbatim>\<open>time.Time\<close> is an integer, \<open>0\<close> standing for the zero time;
  the actor identifiers are \<^verbatim>\<open>int32\<close>.
\<close>

record AuditLog =
  CreatedOn :: int
  CreatedBy :: "32 word"
  UpdatedOn :: int
  UpdatedBy :: "32 word"

record Cluster =
  Id :: int
  ClusterName :: string
  ServerUrl :: string
  Active :: bool
  Config :: gomap
  K8sVersion :: string
  ErrorInConnecting :: string
  AuditLog :: AuditLog

text \<open>\<^verbatim>\<open>ClusterEntity\<close>, the stored row: \<open>Active\<close> is a pointer (\<open>None\<close> is nil) and \<open>Config\<close> is
  the encoded text. Its field names are those of the model; the model's are written
  \<open>Cluster.ClusterName\<close> and so on where both occur.\<close>

record ClusterEntity =
  ID :: int
  ClusterName :: string
  ServerUrl :: string
  Active :: "bool option"
  Config :: string
  K8sVersion :: string
  ErrorInConnecting :: string
  AuditLog :: AuditLog

text \<open>The zero values \<^verbatim>\<open>&ClusterEntity{}\<close> and the zero audit log.\<close>

definition zeroAuditLog :: AuditLog where
  "zeroAuditLog = \<lparr>CreatedOn = 0, CreatedBy = 0, UpdatedOn = 0, UpdatedBy = 0\<rparr>"

definition zeroEntity :: ClusterEntity where
  "zeroEntity =
     \<lparr>ID = 0, ClusterName = [], ServerUrl = [], Active = None, Config = [], K8sVersion = [],
      ErrorInConnecting = [], AuditLog = zeroAuditLog\<rparr>"

section \<open>The embedded store\<close>

text \<open>
  The table \<^verbatim>\<open>cluster_entities\<close> is the list of its rows, in the order of insertion. The
  calls on \<^verbatim>\<open>gorm.DB\<close> that the repository makes are modelled by what gorm documents for
  them; the condition strings are read as naming the entity's fields. Every call takes
  \<open>fault\<close>, the error the engine reports for this call, if any (a disk error, say):
  the repository cannot tell in advance, so every theorem quantifies over it.
\<close>

type_synonym DB = "ClusterEntity list"

text \<open>\<^verbatim>\<open>Where(cond).Find(&dest)\<close>: the rows that satisfy the condition.\<close>

definition gorm_Find :: "error option \<Rightarrow> (ClusterEntity \<Rightarrow> bool) \<Rightarrow> DB \<Rightarrow> error + ClusterEntity list" where
  "gorm_Find fault cond db = (case fault of Some err \<Rightarrow> Inl err | None \<Rightarrow> Inr (filter cond db))"

text \<open>\<open>Find\<close> into a single struct scans the first row found and leaves the
  destination as it was when there is none; it reports no error then.\<close>

definition scan_first :: "ClusterEntity \<Rightarrow> ClusterEntity list \<Rightarrow> ClusterEntity" where
  "scan_first dest found = (case found of [] \<Rightarrow> dest | e # _ \<Rightarrow> e)"



text \<open>
  \<^verbatim>\<open>Model(entity).Updates(entity)\<close> with a struct: gorm updates the row whose primary key is
  the entity's, and only with the entity's non-zero fields: an empty string, a zero
  number, a zero time and a nil pointer leave the stored column as it is.
\<close>

definition updates_audit :: "AuditLog \<Rightarrow> AuditLog \<Rightarrow> AuditLog" where
  "updates_audit new old =
     \<lparr>CreatedOn = (if CreatedOn new = 0 then CreatedOn old else CreatedOn new),
      CreatedBy = (if CreatedBy new = 0 then CreatedBy old else CreatedBy new),
      UpdatedOn = (if UpdatedOn new = 0 then UpdatedOn old else UpdatedOn new),
      UpdatedBy = (if UpdatedBy new = 0 then UpdatedBy old else UpdatedBy new)\<rparr>"

definition updates_row :: "ClusterEntity \<Rightarrow> ClusterEntity \<Rightarrow> ClusterEntity" where
  "updates_row new old =
     \<lparr>ID = ID old,
      ClusterName = (if ClusterName new = [] then ClusterName old else ClusterName new),
      ServerUrl = (if ServerUrl new = [] then ServerUrl old else ServerUrl new),
      Active = (case Active new of None \<Rightarrow> Active old | Some b \<Rightarrow> Some b),
      Config = (if Config new = [] then Config old else Config new),
      K8sVersion = (if K8sVersion new = [] then K8sVersion old else K8sVersion new),
      ErrorInConnecting =
        (if ErrorInConnecting new = [] then ErrorInConnecting old else ErrorInConnecting new),
      AuditLog = updates_audit (AuditLog new) (AuditLog old)\<rparr>"

text \<open>With a zero primary key there is no condition, which gorm refuses
  (\<^verbatim>\<open>ErrMissingWhereClause\<close>).\<close>

definition gorm_Updates :: "error option \<Rightarrow> ClusterEntity \<Rightarrow> DB \<Rightarrow> error + DB" where
  "gorm_Updates fault entity db =
     (case fault of
        Some err \<Rightarrow> Inl err
      | None \<Rightarrow>
          if ID entity = 0 then Inl (EngineError ''WHERE conditions required'')
          else Inr (map (\<lambda>row. if ID row = ID entity then updates_row entity row else row) db))"


section \<open>The cluster repository\<close>

definition convertToEntity :: "Cluster \<Rightarrow> error + ClusterEntity" where
  "convertToEntity model =
     (case json_Marshal (Cluster.Config model) of
        Inl err \<Rightarrow> Inl (New ''failed to process cluster data'')
      | Inr configJson \<Rightarrow>
          Inr \<lparr>ID = Id model,
               ClusterName = Cluster.ClusterName model,
               ServerUrl = Cluster.ServerUrl model,
               Active = Some (Cluster.Active model),
               Config = configJson,
               K8sVersion = Cluster.K8sVersion model,
               ErrorInConnecting = Cluster.ErrorInConnecting model,
               AuditLog =
                 \<lparr>CreatedOn = CreatedOn (Cluster.AuditLog model),
                  CreatedBy = CreatedBy (Cluster.AuditLog model),
                  UpdatedOn = UpdatedOn (Cluster.AuditLog model),
                  UpdatedBy = UpdatedBy (Cluster.AuditLog model)\<rparr>\<rparr>)"

definition convertToModel :: "ClusterEntity \<Rightarrow> error + Cluster" where
  "convertToModel entity =
     (case (if 0 < length (Config entity) then json_Unmarshal (Config entity) (Some [])
            else Inr (Some [])) of
        Inl err \<Rightarrow> Inl (New ''failed to process cluster data'')
      | Inr clusterConfig \<Rightarrow>
          Inr \<lparr>Id = ID entity,
               Cluster.ClusterName = ClusterName entity,
               Cluster.ServerUrl = ServerUrl entity,
               Cluster.Active = (case Active entity of None \<Rightarrow> False | Some isActive \<Rightarrow> isActive),
               Cluster.Config = clusterConfig,
               Cluster.K8sVersion = K8sVersion entity,
               Cluster.ErrorInConnecting = ErrorInConnecting entity,
               Cluster.AuditLog = AuditLog entity\<rparr>)"


definition FindOneActive :: "error option \<Rightarrow> DB \<Rightarrow> string \<Rightarrow> error + Cluster" where
  "FindOneActive fault db clusterName =
     (case gorm_Find fault (\<lambda>e. ClusterName e = clusterName \<and> Active e = Some True) db of
        Inl err \<Rightarrow> Inl err
      | Inr found \<Rightarrow>
          (case convertToModel (scan_first zeroEntity found) of
             Inl err \<Rightarrow> Inl (New ''failed to fetch cluster'')
           | Inr clusterBean \<Rightarrow> Inr clusterBean))"

definition FindOne :: "error option \<Rightarrow> DB \<Rightarrow> string \<Rightarrow> error + Cluster" where
  "FindOne fault db clusterName = FindOneActive fault db clusterName"

text \<open>The loop over the rows found: a row that does not convert is logged and skipped.\<close>

fun convert_rows :: "ClusterEntity list \<Rightarrow> Cluster list" where
  "convert_rows [] = []"
| "convert_rows (clusterEntity # rest) =
     (case convertToModel clusterEntity of
        Inl err \<Rightarrow> convert_rows rest
      | Inr clusterBean \<Rightarrow> clusterBean # convert_rows rest)"

definition FindAllActive :: "error option \<Rightarrow> DB \<Rightarrow> error + Cluster list" where
  "FindAllActive fault db =
     (case gorm_Find fault (\<lambda>e. Active e = Some True) db of
        Inl err \<Rightarrow> Inl err
      | Inr clusterEntities \<Rightarrow> Inr (convert_rows clusterEntities))"

definition FindAll :: "error option \<Rightarrow> DB \<Rightarrow> error + Cluster list" where
  "FindAll fault db = FindAllActive fault db"

definition FindById :: "error option \<Rightarrow> DB \<Rightarrow> int \<Rightarrow> error + Cluster" where
  "FindById fault db id' =
     (case gorm_Find fault (\<lambda>e. ID e = id' \<and> Active e = Some True) db of
        Inl err \<Rightarrow> Inl err
      | Inr found \<Rightarrow>
          (case convertToModel (scan_first zeroEntity found) of
             Inl err \<Rightarrow> Inl (New ''failed to fetch cluster'')
           | Inr clusterBean \<Rightarrow> Inr clusterBean))"

definition FindByIds :: "error option \<Rightarrow> DB \<Rightarrow> int list \<Rightarrow> error + Cluster list" where
  "FindByIds fault db ids =
     (case gorm_Find fault (\<lambda>e. ID e \<in> set ids \<and> Active e = Some True) db of
        Inl err \<Rightarrow> Inl err
      | Inr clusterEntities \<Rightarrow> Inr (convert_rows clusterEntities))"

definition Update :: "error option \<Rightarrow> DB \<Rightarrow> Cluster \<Rightarrow> error option \<times> DB" where
  "Update fault db model =
     (case convertToEntity model of
        Inl err \<Rightarrow> (Some (New ''failed to update cluster''), db)
      | Inr entity \<Rightarrow>
          (case gorm_Updates fault entity db of
             Inl err \<Rightarrow> (Some (New ''failed to update cluster''), db)
           | Inr db' \<Rightarrow> (None, db')))"

text \<open>\<open>MarkClusterDeleted\<close> clears \<open>Active\<close> on the caller's model before it updates.\<close>

definition MarkClusterDeleted :: "error option \<Rightarrow> DB \<Rightarrow> Cluster \<Rightarrow> error option \<times> Cluster \<times> DB" where
  "MarkClusterDeleted fault db model =
     (fst (Update fault db (model\<lparr>Cluster.Active := False\<rparr>)),
      model\<lparr>Cluster.Active := False\<rparr>,
      snd (Update fault db (model\<lparr>Cluster.Active := False\<rparr>)))"


section \<open>Values the statements use\<close>

text \<open>The model of the zero entity: what a lookup returns when no row was found.\<close>

definition emptyCluster :: Cluster where
  "emptyCluster =
     \<lparr>Id = 0, Cluster.ClusterName = [], Cluster.ServerUrl = [], Cluster.Active = False,
      Cluster.Config = Some [], Cluster.K8sVersion = [], Cluster.ErrorInConnecting = [],
      Cluster.AuditLog = zeroAuditLog\<rparr>"


text \<open>Two rows for the concrete instances: one with no config text, one whose text is
  not JSON.\<close>

definition goodRow :: ClusterEntity where
  "goodRow = zeroEntity\<lparr>ID := 1, ClusterName := ''c1'', Active := Some True, K8sVersion := ''1.20''\<rparr>"


section \<open>Properties\<close>

subsection \<open>Conversion of the rows found\<close>

lemma convertToModel_fields:
  assumes "convertToModel entity = Inr c"
  shows "Id c = ID entity" and "Cluster.ClusterName c = ClusterName entity"
    and "Cluster.ServerUrl c = ServerUrl entity"
    and "Cluster.Active c = (case Active entity of None \<Rightarrow> False | Some b \<Rightarrow> b)"
    and "Cluster.K8sVersion c = K8sVersion entity"
    and "Cluster.ErrorInConnecting c = ErrorInConnecting entity"
    and "Cluster.AuditLog c = AuditLog entity"
  using assms by (auto simp: convertToModel_def split: sum.splits if_splits)

lemma convertToModel_ok_iff:
  "(\<exists>c. convertToModel entity = Inr c) \<longleftrightarrow>
     Config entity = [] \<or> (\<exists>m. json_Unmarshal (Config entity) (Some []) = Inr m)"
  by (auto simp: convertToModel_def split: sum.splits)

lemma convert_rows_from:
  "c \<in> set (convert_rows es) \<Longrightarrow> \<exists>e \<in> set es. convertToModel e = Inr c"
  by (induction es) (auto split: sum.splits)

lemma convertToModel_zeroEntity:
  "convertToModel zeroEntity =
     Inr \<lparr>Id = 0, Cluster.ClusterName = [], Cluster.ServerUrl = [], Cluster.Active = False,
          Cluster.Config = Some [], Cluster.K8sVersion = [], Cluster.ErrorInConnecting = [],
          Cluster.AuditLog = zeroAuditLog\<rparr>"
  by (simp add: convertToModel_def zeroEntity_def)

subsection \<open>The nullable flag\<close>

text \<open>
  Claim C6. The translation of an entity to a model reads a nil \<open>Active\<close> as \<open>False\<close> and a
  stored flag as its value; whether the translation succeeds depends on the config text
  alone, so the flag, nil or not, never makes it fail.
\<close>

theorem convertToModel_Active:
  "(\<forall>c. convertToModel entity = Inr c \<longrightarrow>
       Cluster.Active c = (case Active entity of None \<Rightarrow> False | Some b \<Rightarrow> b))
   \<and> (convertToModel (entity\<lparr>Active := None\<rparr>) = Inl err
        \<longleftrightarrow> convertToModel (entity\<lparr>Active := a\<rparr>) = Inl err)
   \<and> (\<forall>c. convertToModel (entity\<lparr>Active := None\<rparr>) = Inr c \<longrightarrow> \<not> Cluster.Active c)"
  by (auto simp: convertToModel_def split: sum.splits)

theorem convertToModel_Active_witness:
  "convertToModel (zeroEntity\<lparr>Active := None\<rparr>) =
     Inr \<lparr>Id = 0, Cluster.ClusterName = [], Cluster.ServerUrl = [], Cluster.Active = False,
          Cluster.Config = Some [], Cluster.K8sVersion = [], Cluster.ErrorInConnecting = [],
          Cluster.AuditLog = zeroAuditLog\<rparr>
   \<and> \<not> Cluster.Active
        \<lparr>Id = 0, Cluster.ClusterName = [], Cluster.ServerUrl = [], Cluster.Active = False,
         Cluster.Config = Some [], Cluster.K8sVersion = [], Cluster.ErrorInConnecting = [],
         Cluster.AuditLog = zeroAuditLog\<rparr>"
  using convertToModel_Active [of zeroEntity "New []" None]
  by (simp add: convertToModel_def zeroEntity_def)

subsection \<open>The reads without a filter of their own\<close>

text \<open>
  Claim C10. \<open>FindOne\<close> returns what \<open>FindOneActive\<close> returns and \<open>FindAll\<close> what
  \<open>FindAllActive\<close> returns, on every store and for every outcome of the engine; so
  every cluster \<open>FindAll\<close> returns is the translation of a row whose flag is true, and
  a row that is not active is in no result of it.
\<close>

theorem FindOne_FindAll_active_only:
  "FindOne fault db clusterName = FindOneActive fault db clusterName
   \<and> FindAll fault db = FindAllActive fault db
   \<and> (\<forall>cs. FindAll fault db = Inr cs \<longrightarrow>
         (\<forall>c \<in> set cs. Cluster.Active c
            \<and> (\<exists>e \<in> set db. Active e = Some True \<and> convertToModel e = Inr c)))"
proof -
  have "Cluster.Active c \<and> (\<exists>e \<in> set db. Active e = Some True \<and> convertToModel e = Inr c)"
    if "FindAll fault db = Inr cs" and "c \<in> set cs" for cs c
  proof -
    from that have "c \<in> set (convert_rows (filter (\<lambda>e. Active e = Some True) db))"
      by (auto simp: FindAll_def FindAllActive_def gorm_Find_def split: option.splits)
    from convert_rows_from [OF this]
    obtain e where e: "e \<in> set db" "Active e = Some True" "convertToModel e = Inr c"
      by auto
    from convertToModel_fields(4) [OF e(3)] e show ?thesis by auto
  qed
  then show ?thesis by (simp add: FindOne_def FindAll_def)
qed

theorem FindOne_FindAll_active_only_witness:
  "FindAll None [zeroEntity\<lparr>ID := 1, Active := Some True\<rparr>, zeroEntity\<lparr>ID := 2, Active := Some False\<rparr>]
     = FindAllActive None [zeroEntity\<lparr>ID := 1, Active := Some True\<rparr>, zeroEntity\<lparr>ID := 2, Active := Some False\<rparr>]
   \<and> FindAll None [zeroEntity\<lparr>ID := 1, Active := Some True\<rparr>, zeroEntity\<lparr>ID := 2, Active := Some False\<rparr>]
     = Inr [\<lparr>Id = 1, Cluster.ClusterName = [], Cluster.ServerUrl = [], Cluster.Active = True,
             Cluster.Config = Some [], Cluster.K8sVersion = [], Cluster.ErrorInConnecting = [],
             Cluster.AuditLog = zeroAuditLog\<rparr>]"
  using FindOne_FindAll_active_only
    [of None "[zeroEntity\<lparr>ID := 1, Active := Some True\<rparr>, zeroEntity\<lparr>ID := 2, Active := Some False\<rparr>]" "[]"]
  by (simp add: FindAll_def FindAllActive_def gorm_Find_def convertToModel_def zeroEntity_def)

lemma convertToModel_empty: "convertToModel zeroEntity = Inr emptyCluster"
  by (simp add: convertToModel_zeroEntity emptyCluster_def)




subsection \<open>Lookups that find nothing\<close>



subsection \<open>Batch reads skip the rows that do not decode\<close>









lemma json_Marshal_ok: "\<exists>t. json_Marshal m = Inr t"
  by (cases m) (simp_all add: json_Marshal_def)

lemma convertToEntity_ok: "\<exists>entity. convertToEntity model = Inr entity"
  using json_Marshal_ok [of "Cluster.Config model"] by (auto simp: convertToEntity_def)

lemma scan_first_cases:
  "scan_first zeroEntity (filter P db) = zeroEntity
   \<or> (scan_first zeroEntity (filter P db) \<in> set db \<and> P (scan_first zeroEntity (filter P db)))"
proof (cases "filter P db")
  case Nil
  then show ?thesis by (simp add: scan_first_def)
next
  case (Cons e es)
  then have "e \<in> set (filter P db)" by simp
  then have "e \<in> set db \<and> P e" by simp
  with Cons show ?thesis by (simp add: scan_first_def)
qed

subsection \<open>Errors reported when decoding fails\<close>




subsection \<open>Save\<close>






subsection \<open>Soft delete\<close>

lemma single_read_from:
  assumes "(case gorm_Find fault P db of
              Inl err \<Rightarrow> Inl err
            | Inr found \<Rightarrow>
                (case convertToModel (scan_first zeroEntity found) of
                   Inl err \<Rightarrow> Inl (New ''failed to fetch cluster'')
                 | Inr clusterBean \<Rightarrow> Inr clusterBean)) = Inr r"
  shows "r = emptyCluster \<or> (\<exists>e \<in> set db. P e \<and> convertToModel e = Inr r)"
proof -
  from assms have r: "convertToModel (scan_first zeroEntity (filter P db)) = Inr r"
    by (auto simp: gorm_Find_def split: option.splits sum.splits)
  from scan_first_cases [of P db] show ?thesis
  proof
    assume "scan_first zeroEntity (filter P db) = zeroEntity"
    with r show ?thesis by (simp add: convertToModel_empty)
  next
    assume "scan_first zeroEntity (filter P db) \<in> set db \<and> P (scan_first zeroEntity (filter P db))"
    with r show ?thesis by blast
  qed
qed

lemma batch_read_from:
  assumes "(case gorm_Find fault P db of
              Inl err \<Rightarrow> Inl err
            | Inr clusterEntities \<Rightarrow> Inr (convert_rows clusterEntities)) = Inr rs"
    and "r \<in> set rs"
  shows "\<exists>e \<in> set db. P e \<and> convertToModel e = Inr r"
proof -
  from assms have "r \<in> set (convert_rows (filter P db))"
    by (auto simp: gorm_Find_def split: option.splits)
  from convert_rows_from [OF this] show ?thesis by auto
qed

lemma Update_ok:
  assumes "Update fault db model = (None, db')"
  shows "Id model \<noteq> 0"
    and "\<exists>entity. convertToEntity model = Inr entity
          \<and> db' = map (\<lambda>row. if ID row = Id model then updates_row entity row else row) db"
proof -
  obtain entity where e: "convertToEntity model = Inr entity"
    using convertToEntity_ok by blast
  then have i: "ID entity = Id model" by (auto simp: convertToEntity_def split: sum.splits)
  from assms e i show "Id model \<noteq> 0"
    by (auto simp: Update_def gorm_Updates_def split: option.splits if_splits)
  from assms e i show "\<exists>entity. convertToEntity model = Inr entity
          \<and> db' = map (\<lambda>row. if ID row = Id model then updates_row entity row else row) db"
    by (auto simp: Update_def gorm_Updates_def split: option.splits if_splits)
qed

text \<open>
  Claim C2. After \<open>MarkClusterDeleted\<close> returns no error for a cluster \<open>c\<close>, every row with
  the id of \<open>c\<close> has its flag false, and no read returns it, whatever the engine does
  next: what \<open>FindOneActive\<close> and \<open>FindOne\<close> return for the name of \<open>c\<close> has another id,
  \<open>FindById\<close> on the id of \<open>c\<close> returns the empty cluster, and no cluster of \<open>FindAllActive\<close>,
  \<open>FindAll\<close> or \<open>FindByIds\<close> has the id of \<open>c\<close>. On any store, what a read returns is the
  translation of a row whose flag is true (or, for a lookup, the empty cluster).
\<close>

theorem MarkClusterDeleted_invisible:
  assumes "MarkClusterDeleted fault db c = (None, c', db')"
  shows "Id c \<noteq> 0 \<and> c' = c\<lparr>Cluster.Active := False\<rparr>
    \<and> (\<forall>e \<in> set db'. ID e = Id c \<longrightarrow> Active e = Some False)
    \<and> (\<forall>r. FindOneActive f db' (Cluster.ClusterName c) = Inr r \<longrightarrow> Id r \<noteq> Id c)
    \<and> (\<forall>r. FindOne f db' (Cluster.ClusterName c) = Inr r \<longrightarrow> Id r \<noteq> Id c)
    \<and> (\<forall>rs. FindAllActive f db' = Inr rs \<longrightarrow> (\<forall>r \<in> set rs. Id r \<noteq> Id c))
    \<and> (\<forall>rs. FindAll f db' = Inr rs \<longrightarrow> (\<forall>r \<in> set rs. Id r \<noteq> Id c))
    \<and> (\<forall>r. FindById f db' (Id c) = Inr r \<longrightarrow> r = emptyCluster)
    \<and> (\<forall>rs. FindByIds f db' ids = Inr rs \<longrightarrow> (\<forall>r \<in> set rs. Id r \<noteq> Id c))
    \<and> (\<forall>r. FindOneActive f dbx n = Inr r \<or> FindOne f dbx n = Inr r \<or> FindById f dbx i = Inr r \<longrightarrow>
          r = emptyCluster \<or> (\<exists>e \<in> set dbx. Active e = Some True \<and> convertToModel e = Inr r))
    \<and> (\<forall>rs. FindAllActive f dbx = Inr rs \<or> FindAll f dbx = Inr rs \<or> FindByIds f dbx ids = Inr rs \<longrightarrow>
          (\<forall>r \<in> set rs. \<exists>e \<in> set dbx. Active e = Some True \<and> convertToModel e = Inr r))"
proof -
  from assms have u: "Update fault db (c\<lparr>Cluster.Active := False\<rparr>) = (None, db')"
    and c': "c' = c\<lparr>Cluster.Active := False\<rparr>"
    by (auto simp: MarkClusterDeleted_def prod_eq_iff)
  from Update_ok(1) [OF u] have id0: "Id c \<noteq> 0" by simp
  from Update_ok(2) [OF u] obtain entity
    where e: "convertToEntity (c\<lparr>Cluster.Active := False\<rparr>) = Inr entity"
      and db': "db' = map (\<lambda>row. if ID row = Id c then updates_row entity row else row) db"
    by auto
  from e have a: "Active entity = Some False"
    by (auto simp: convertToEntity_def split: sum.splits)
  have gone: "Active x = Some False" if "x \<in> set db'" "ID x = Id c" for x
    using that a by (auto simp: db' updates_row_def split: if_splits)
  have gone': "ID x \<noteq> Id c" if "x \<in> set db'" "Active x = Some True" for x
    using gone [OF that(1)] that(2) by auto
  have idr: "Id r = ID x" if "convertToModel x = Inr r" for x r
    using convertToModel_fields(1) [OF that] .
  have one: "r = emptyCluster \<or> (\<exists>e \<in> set d. Active e = Some True \<and> convertToModel e = Inr r)"
    if "FindOneActive f d m = Inr r \<or> FindOne f d m = Inr r \<or> FindById f d j = Inr r" for r d m j
    using that
    by (auto simp: FindOne_def FindOneActive_def FindById_def dest!: single_read_from)
  have many: "\<exists>e \<in> set d. Active e = Some True \<and> convertToModel e = Inr r"
    if "FindAllActive f d = Inr rs \<or> FindAll f d = Inr rs \<or> FindByIds f d ids = Inr rs" "r \<in> set rs"
    for r rs d
    using that
    by (auto simp: FindAll_def FindAllActive_def FindByIds_def dest!: batch_read_from)
  have e0: "Id emptyCluster = 0" by (simp add: emptyCluster_def)
  have s1: "Id r \<noteq> Id c" if "FindOneActive f db' m = Inr r \<or> FindOne f db' m = Inr r" for r m
    using one [of db' m r] that id0 e0 gone' idr by auto
  have s2: "Id r \<noteq> Id c"
    if "FindAllActive f db' = Inr rs \<or> FindAll f db' = Inr rs \<or> FindByIds f db' ids = Inr rs" "r \<in> set rs"
    for r rs
    using many [OF that] gone' idr by auto
  have s3: "r = emptyCluster" if "FindById f db' (Id c) = Inr r" for r
  proof -
    from that have "r = emptyCluster
        \<or> (\<exists>e \<in> set db'. (ID e = Id c \<and> Active e = Some True) \<and> convertToModel e = Inr r)"
      unfolding FindById_def by (rule single_read_from)
    with gone' show ?thesis by blast
  qed
  show ?thesis
    using id0 c' gone s1 s2 s3 one [of dbx n _ i] many [of dbx] by (intro conjI allI impI ballI) blast+
qed


lemma convertToEntity_goodModel:
  "convertToEntity (emptyCluster\<lparr>Id := 1, Cluster.ClusterName := ''c1'', Cluster.Active := b\<rparr>)
     = Inr (zeroEntity\<lparr>ID := 1, ClusterName := ''c1'', Active := Some b, Config := ''{}''\<rparr>)"
  by (simp add: convertToEntity_def json_Marshal_def emptyCluster_def zeroEntity_def zeroAuditLog_def)

theorem MarkClusterDeleted_invisible_witness:
  "MarkClusterDeleted None [goodRow] (emptyCluster\<lparr>Id := 1, Cluster.ClusterName := ''c1'', Cluster.Active := True\<rparr>)
     = (None, emptyCluster\<lparr>Id := 1, Cluster.ClusterName := ''c1'', Cluster.Active := False\<rparr>,
        [goodRow\<lparr>Active := Some False, Config := ''{}''\<rparr>])
   \<and> FindById None [goodRow\<lparr>Active := Some False, Config := ''{}''\<rparr>] 1 = Inr emptyCluster
   \<and> FindAllActive None [goodRow\<lparr>Active := Some False, Config := ''{}''\<rparr>] = Inr []"
proof -
  have m: "MarkClusterDeleted None [goodRow]
      (emptyCluster\<lparr>Id := 1, Cluster.ClusterName := ''c1'', Cluster.Active := True\<rparr>)
     = (None, emptyCluster\<lparr>Id := 1, Cluster.ClusterName := ''c1'', Cluster.Active := False\<rparr>,
        [goodRow\<lparr>Active := Some False, Config := ''{}''\<rparr>])"
    using convertToEntity_goodModel [of False]
    by (simp add: MarkClusterDeleted_def Update_def gorm_Updates_def updates_row_def
        updates_audit_def goodRow_def zeroEntity_def zeroAuditLog_def)
  have a: "FindAllActive None [goodRow\<lparr>Active := Some False, Config := ''{}''\<rparr>] = Inr []"
    by (simp add: FindAllActive_def gorm_Find_def)
  from MarkClusterDeleted_invisible [OF m, of None "[]" "[]" "[]" 0]
  have "\<forall>r. FindById None [goodRow\<lparr>Active := Some False, Config := ''{}''\<rparr>]
           (Id (emptyCluster\<lparr>Id := 1, Cluster.ClusterName := ''c1'', Cluster.Active := True\<rparr>)) = Inr r
         \<longrightarrow> r = emptyCluster"
    by (elim conjE)
  moreover have "FindById None [goodRow\<lparr>Active := Some False, Config := ''{}''\<rparr>] 1 = Inr emptyCluster"
    by (simp add: FindById_def gorm_Find_def scan_first_def convertToModel_empty)
  ultimately show ?thesis using m a by simp
qed

subsection \<open>The connection status\<close>





subsection \<open>Update\<close>

text \<open>
  Claim C3 does not hold of the code: \<open>Update\<close> with a model whose \<open>K8sVersion\<close> is empty
  returns no error and leaves the stored \<open>K8sVersion\<close> as it was, since gorm's \<open>Updates\<close>
  with a struct skips the fields that are zero.
\<close>

theorem Update_keeps_stored_on_empty:
  "Update None [goodRow] (emptyCluster\<lparr>Id := 1, Cluster.ClusterName := ''c1'', Cluster.Active := True\<rparr>)
     = (None, [goodRow\<lparr>Config := ''{}''\<rparr>])
   \<and> Cluster.K8sVersion (emptyCluster\<lparr>Id := 1, Cluster.ClusterName := ''c1'', Cluster.Active := True\<rparr>) = []
   \<and> K8sVersion (goodRow\<lparr>Config := ''{}''\<rparr>) = ''1.20''"
  using convertToEntity_goodModel [of True]
  by (simp add: Update_def gorm_Updates_def updates_row_def updates_audit_def goodRow_def
      zeroEntity_def zeroAuditLog_def emptyCluster_def)

end
